theory Spec2Isabelle
  imports Complex_Main
begin

section \<open>The task node of the pipelines topology (TaskNode.tsx)\<close>

text \<open>
  The component is a function from its props and the values its hooks return in one render
  to either a thrown error or a rendered tree. JavaScript numbers are modelled as
  \<^typ>\<open>real\<close>: the arithmetic of the layout is exact here, and NaN and the infinities
  are not values of the model. An optional prop is an \<^typ>\<open>'a option\<close> whose
  \<^const>\<open>None\<close> is JavaScript's \<^verbatim>\<open>undefined\<close>; the tests of the source
  (\<^verbatim>\<open>x ? a : b\<close>, \<^verbatim>\<open>x && y\<close>) are tests of JavaScript truthiness, written out
  below for each type of value.
\<close>

subsection \<open>Values\<close>

text \<open>
  Modelled from the spec: the enumeration RunStatus is declared in pipelines/types, which is
  not part of this file. The file names five of its members; the others are \<open>OtherStatus\<close>.
  Every member is a non-empty string, hence truthy.
\<close>

datatype RunStatus = Failed | FailedToStart | Cancelled | Running | InProgress | OtherStatus string

text \<open>
  Modelled from the spec: the details level is a discrete rendering tier, low, medium or
  high (ScaleDetailsLevel, declared in types).
\<close>

datatype ScaleDetailsLevel = low | medium | high

datatype JsError = TypeError string | Error string

text \<open>A measured size, as useSize returns it.\<close>

record Size =
  width :: real
  height :: real

text \<open>
  A React node as a prop receives it. Elements are opaque and named by a string; numbers as
  React nodes are left out.
\<close>

datatype ReactNode =
    NodeNull
  | NodeBool bool
  | NodeText string
  | NodeElement string

fun truthyNode :: "ReactNode \<Rightarrow> bool" where
  "truthyNode NodeNull = False"
| "truthyNode (NodeBool b) = b"
| "truthyNode (NodeText s) = (s \<noteq> [])"
| "truthyNode (NodeElement e) = True"

text \<open>Truthiness of an optional prop, by the type of its value.\<close>

definition isSet :: "'a option \<Rightarrow> bool" where
  "isSet v = (v \<noteq> None)"

definition truthyFlag :: "bool option \<Rightarrow> bool" where
  "truthyFlag v = (v = Some True)"

definition truthyString :: "string option \<Rightarrow> bool" where
  "truthyString v = (case v of None \<Rightarrow> False | Some s \<Rightarrow> s \<noteq> [])"

definition truthyReact :: "ReactNode option \<Rightarrow> bool" where
  "truthyReact v = (case v of None \<Rightarrow> False | Some n \<Rightarrow> truthyNode n)"

text \<open>
  A prop that the source tests for being falsy although it has a default: the default
  replaces \<^verbatim>\<open>undefined\<close> only, so \<^verbatim>\<open>null\<close> reaches the test.
\<close>

datatype 'a Nullish = Undefined | Null | Given 'a

text \<open>A destructuring default: it replaces \<^verbatim>\<open>undefined\<close> only.\<close>

definition dflt :: "'a \<Rightarrow> 'a option \<Rightarrow> 'a" where
  "dflt d v = (case v of None \<Rightarrow> d | Some x \<Rightarrow> x)"

subsection \<open>The graph element\<close>

text \<open>
  Modelled from the spec: the graph node is owned by the diagram framework. It has bounds, a
  label, a graph with a details level and a scale, and outgoing edges, named here by their
  identifiers. The data of an edge is an object (a finite map from field names to values) or
  \<^verbatim>\<open>undefined\<close>.
\<close>

datatype JsValue = JsNumber real | JsString string | JsBoolean bool

type_synonym EdgeData = "string \<rightharpoonup> JsValue"

type_synonym EdgeStore = "string \<Rightarrow> EdgeData option"

record Graph =
  getDetailsLevel :: ScaleDetailsLevel
  getScale :: real

record GraphElement =
  getId :: string
  getLabel :: string
  getBounds :: Size
  getGraph :: Graph
  getSourceEdges :: "string list"

subsection \<open>Props and hook values\<close>

text \<open>Event handlers and popover parameters are opaque and named by a string.\<close>

record TaskNodeProps =
  children :: "ReactNode option"
  className :: "string option"
  element :: GraphElement
  paddingX :: "real option"
  paddingY :: "real option"
  nameLabelClass :: "string option"
  status :: "RunStatus option"
  statusIconSize :: "real option"
  showStatusState :: "bool option"
  scaleNode :: "bool option"
  hideDetailsAtMedium :: "bool option"
  hiddenDetailsShownStatuses :: "RunStatus list Nullish"
  leadIcon :: "ReactNode option"
  badge :: "string option"
  badgeColor :: "string option"
  badgeTextColor :: "string option"
  badgeBorderColor :: "string option"
  badgeClassName :: "string option"
  badgePopoverProps :: "string option"
  badgeTooltip :: "ReactNode option"
  badgePopoverParams :: "string option"
  taskIconClass :: "string option"
  taskIcon :: "ReactNode option"
  taskIconTooltip :: "ReactNode option"
  taskIconPadding :: "real option"
  hover :: "bool option"
  truncateLength :: "real option"
  disableTooltip :: "bool option"
  toolTip :: "ReactNode option"
  toolTipProps :: "string option"
  hasWhenExpression :: "bool option"
  whenSize :: "real option"
  whenOffset :: "real option"
  actionIcon :: "string option"
  actionIconClassName :: "string option"
  onActionIconClick :: "string option"
  selected :: "bool option"
  onSelect :: "string option"
  onContextMenu :: "string option"
  contextMenuOpen :: "bool option"

text \<open>
  What the hooks of TaskNodeInner return in one render: the hover state of useHover, the six
  sizes of useSize (\<^const>\<open>None\<close> until the element has been measured), the scale of
  useScaleNode and the translation of getNodeScaleTranslation.
\<close>

record Hooks =
  hovered :: bool
  textSize :: "Size option"
  statusSize :: "Size option"
  leadSize :: "Size option"
  badgeSize :: "Size option"
  actionSize :: "Size option"
  contextSize :: "Size option"
  nodeScale :: real
  translateX :: real
  translateY :: real

definition STATUS_ICON_SIZE :: real where
  "STATUS_ICON_SIZE = 16"

definition SCALE_UP_TIME :: real where
  "SCALE_UP_TIME = 200"

text \<open>The parameters of TaskNodeInner that have a default, after destructuring.\<close>

abbreviation padX :: "TaskNodeProps \<Rightarrow> real" where
  "padX p \<equiv> dflt 8 (paddingX p)"

abbreviation padY :: "TaskNodeProps \<Rightarrow> real" where
  "padY p \<equiv> dflt 8 (paddingY p)"

abbreviation iconSize :: "TaskNodeProps \<Rightarrow> real" where
  "iconSize p \<equiv> dflt STATUS_ICON_SIZE (statusIconSize p)"

abbreviation showState :: "TaskNodeProps \<Rightarrow> bool" where
  "showState p \<equiv> dflt True (showStatusState p)"

abbreviation iconPadding :: "TaskNodeProps \<Rightarrow> real" where
  "iconPadding p \<equiv> dflt 4 (taskIconPadding p)"

subsection \<open>The layout pass\<close>

record Layout =
  height :: real
  statusStartX :: real
  textStartX :: real
  actionStartX :: real
  contextStartX :: real
  pillWidth :: real
  badgeStartX :: real
  iconWidth :: real
  iconStartX :: real
  leadIconStartX :: real

definition textWidth :: "Hooks \<Rightarrow> real" where
  "textWidth h = (case textSize h of None \<Rightarrow> 0 | Some s \<Rightarrow> Size.width s)"

definition textHeight :: "Hooks \<Rightarrow> real" where
  "textHeight h = (case textSize h of None \<Rightarrow> 0 | Some s \<Rightarrow> Size.height s)"

text \<open>
  The spaces taken by the optional parts. Reading \<^verbatim>\<open>leadSize.width\<close> is not guarded by
  a test of \<^verbatim>\<open>leadSize\<close>: on \<^verbatim>\<open>undefined\<close> it throws a TypeError.
\<close>

definition statusSpace :: "TaskNodeProps \<Rightarrow> Hooks \<Rightarrow> real" where
  "statusSpace p h =
     (if isSet (status p) \<and> showState p
      then (case statusSize h of None \<Rightarrow> 0 | Some s \<Rightarrow> Size.width s + padX p)
      else 0)"

definition leadIconSpace :: "TaskNodeProps \<Rightarrow> Hooks \<Rightarrow> JsError + real" where
  "leadIconSpace p h =
     (if truthyReact (leadIcon p)
      then (case leadSize h of
              None \<Rightarrow> Inl (TypeError ''Cannot read properties of undefined (reading width)'')
            | Some s \<Rightarrow> Inr (Size.width s + padX p))
      else Inr 0)"

definition badgeSpace :: "TaskNodeProps \<Rightarrow> Hooks \<Rightarrow> real" where
  "badgeSpace p h =
     (if truthyString (badge p)
      then (case badgeSize h of None \<Rightarrow> 0 | Some s \<Rightarrow> Size.width s + padX p)
      else 0)"

definition actionSpace :: "TaskNodeProps \<Rightarrow> Hooks \<Rightarrow> real" where
  "actionSpace p h =
     (if isSet (actionIcon p)
      then (case actionSize h of None \<Rightarrow> 0 | Some s \<Rightarrow> Size.width s + padX p)
      else 0)"

definition contextSpace :: "TaskNodeProps \<Rightarrow> Hooks \<Rightarrow> real" where
  "contextSpace p h =
     (if isSet (onContextMenu p)
      then (case contextSize h of None \<Rightarrow> 0 | Some s \<Rightarrow> Size.width s + padX p / 2)
      else 0)"

definition unmeasuredLayout :: Layout where
  "unmeasuredLayout =
     \<lparr>height = 0, statusStartX = 0, textStartX = 0, actionStartX = 0, contextStartX = 0,
      pillWidth = 0, badgeStartX = 0, iconWidth = 0, iconStartX = 0, leadIconStartX = 0\<rparr>"

definition layout :: "TaskNodeProps \<Rightarrow> Hooks \<Rightarrow> JsError + Layout" where
  "layout p h =
     (if textSize h = None then Inr unmeasuredLayout
      else
        let height = textHeight h + 2 * padY p;
            startX = padX p + padX p / 2;
            iconWidth = (if truthyString (taskIconClass p) \<or> truthyReact (taskIcon p)
                         then height - iconPadding p else 0);
            iconStartX = - (iconWidth * 0.75);
            statusStartX = startX - iconSize p / 4;
            leadIconStartX = startX + statusSpace p h
        in case leadIconSpace p h of
             Inl e \<Rightarrow> Inl e
           | Inr leadSpace \<Rightarrow>
               let textStartX = leadIconStartX + leadSpace;
                   textSpace = textWidth h + padX p;
                   badgeStartX = textStartX + textSpace;
                   actionStartX = badgeStartX + badgeSpace p h;
                   contextStartX = actionStartX + actionSpace p h;
                   pillWidth = contextStartX + contextSpace p h + padX p / 2
               in Inr \<lparr>height = height, statusStartX = statusStartX, textStartX = textStartX,
                       actionStartX = actionStartX, contextStartX = contextStartX,
                       pillWidth = pillWidth, badgeStartX = badgeStartX, iconWidth = iconWidth,
                       iconStartX = iconStartX, leadIconStartX = leadIconStartX\<rparr>)"

subsection \<open>The source-edge indent effect\<close>

text \<open>
  The effect writes the data of each outgoing edge of the node: the spread of the previous
  data, or of an empty object, with the field indent set.
\<close>

definition indentOf :: "ScaleDetailsLevel \<Rightarrow> real \<Rightarrow> real \<Rightarrow> real" where
  "indentOf level nodeWidth pw = (if level = high then nodeWidth - pw else 0)"

definition withIndent :: "real \<Rightarrow> EdgeData option \<Rightarrow> EdgeData" where
  "withIndent v d = (case d of None \<Rightarrow> Map.empty | Some m \<Rightarrow> m)(''indent'' \<mapsto> JsNumber v)"

definition setIndent :: "real \<Rightarrow> string \<Rightarrow> EdgeStore \<Rightarrow> EdgeStore" where
  "setIndent v e st = st(e := Some (withIndent v (st e)))"

definition indentEffect :: "GraphElement \<Rightarrow> real \<Rightarrow> EdgeStore \<Rightarrow> EdgeStore" where
  "indentEffect el pw st =
     fold (setIndent (indentOf (getDetailsLevel (getGraph el)) (Size.width (getBounds el)) pw))
       (getSourceEdges el) st"

subsection \<open>Imported names\<close>

text \<open>
  The functions, constants and style classes that the file imports from other modules are
  parameters of the model.
\<close>

record Styles =
  topologyPipelinesPill :: string
  topologyPipelinesPillText :: string
  topologyPipelinesPillBadge :: string
  topologyPipelinesPillBackground :: string
  topologyPipelinesPillStatus :: string
  topologyPipelinesStatusIcon :: string
  topologyPipelinesStatusIconBackground :: string
  modifiers_hover :: string
  modifiers_danger :: string
  modifiers_selected :: string
  modifiers_selectable :: string
  modifiers_spin :: string

record Imports =
  styles :: Styles
  topologyNodeSeparator :: string
  isNode :: "GraphElement \<Rightarrow> bool"
  truncateMiddle :: "string \<Rightarrow> real \<Rightarrow> string \<Rightarrow> string"
  getRunStatusModifier :: "RunStatus option \<Rightarrow> string"
  nonShadowModifiers :: "string list"
  createSvgIdUrl :: "string \<Rightarrow> string"
  NODE_SHADOW_FILTER_ID_DANGER :: string
  NODE_SHADOW_FILTER_ID_HOVER :: string

subsection \<open>The rendered tree\<close>

text \<open>
  The arguments of a call of \<^verbatim>\<open>css\<close>, in order; an argument that is
  \<^verbatim>\<open>false\<close> or \<^verbatim>\<open>undefined\<close> is \<^const>\<open>None\<close>.
\<close>

type_synonym ClassArgs = "string option list"

definition cssWhen :: "bool \<Rightarrow> string \<Rightarrow> string option" where
  "cssWhen b c = (if b then Some c else None)"

datatype Transform = Translate real real | Scale real

record Circle =
  circle_className :: ClassArgs
  circle_cx :: real
  circle_cy :: real
  circle_r :: real

record StatusGroup =
  status_transform :: "Transform list"
  status_className :: ClassArgs
  status_icon :: RunStatus

record StatusDot =
  dot_transform :: "Transform list"
  dot_circle :: Circle
  dot_icon :: "StatusGroup option"

record Rect =
  rect_x :: real
  rect_y :: real
  rect_width :: real
  rect_height :: real
  rect_rx :: real
  rect_className :: ClassArgs
  rect_filter :: "string option"

record NameLabel =
  text_className :: ClassArgs
  text_content :: string

datatype LabelNode = PlainLabel NameLabel | TooltipLabel string NameLabel

record LabelGroup =
  label_transform :: "Transform list"
  label_node :: LabelNode

text \<open>The vertical offset of the lead icon can be NaN, which is \<^const>\<open>None\<close> here.\<close>

record LeadIconGroup =
  lead_x :: real
  lead_y :: "real option"
  lead_icon :: ReactNode

record LabelIcon =
  icon_x :: real
  icon_y :: real
  icon_width :: real
  icon_height :: real
  icon_iconClass :: "string option"
  icon_icon :: "ReactNode option"
  icon_padding :: real

datatype TaskIconPart = TaskIconPlain LabelIcon | TaskIconTooltip ReactNode LabelIcon

record LabelBadge =
  badge_x :: real
  badge_y :: real
  badge_text :: string
  badge_className :: string
  badge_color :: "string option"
  badge_textColor :: "string option"
  badge_borderColor :: "string option"

datatype BadgeComponent =
    BadgeTooltip ReactNode LabelBadge
  | BadgePopover string LabelBadge
  | BadgeBare LabelBadge

record ActionPart =
  action_separator :: ClassArgs
  action_x :: real
  action_height :: real
  action_paddingX :: real
  action_icon :: string
  action_className :: "string option"
  action_onClick :: "string option"

record ContextPart =
  context_separator :: ClassArgs
  context_x :: real
  context_height :: real
  context_paddingX :: real
  context_onContextMenu :: string
  context_open :: "bool option"

record Pill =
  pill_className :: ClassArgs
  pill_transform :: "Transform list"
  pill_onClick :: "string option"
  pill_onContextMenu :: "string option"
  pill_background :: Rect
  pill_label :: LabelGroup
  pill_status :: "StatusGroup option"
  pill_leadIcon :: "LeadIconGroup option"
  pill_taskIcon :: "TaskIconPart option"
  pill_badge :: "BadgeComponent option"
  pill_action :: "ActionPart option"
  pill_context :: "ContextPart option"
  pill_children :: "ReactNode option"

datatype Task = CollapsedStatus StatusDot | FullPill Pill

datatype TaskView = Bare Task | WithToolTip ReactNode "string option" Task

record TaskNodeView =
  view_className :: ClassArgs
  view_transform :: "Transform list"
  view_task :: TaskView

record Anchors =
  source_detailsLevel :: ScaleDetailsLevel
  source_offset :: real
  target_offset :: real

record RenderResult =
  warnings :: "string list"
  anchors :: Anchors
  outcome :: "JsError + TaskNodeView"

datatype ReactElement = TaskNodeInnerElement TaskNodeProps

subsection \<open>TaskNodeInner\<close>

definition whenTruthy :: "ReactNode option \<Rightarrow> ReactNode option" where
  "whenTruthy v = (case v of None \<Rightarrow> None | Some n \<Rightarrow> if truthyNode n then Some n else None)"

definition isHover :: "TaskNodeProps \<Rightarrow> Hooks \<Rightarrow> bool" where
  "isHover p h = (case hover p of None \<Rightarrow> hovered h | Some b \<Rightarrow> b)"

definition label :: "Imports \<Rightarrow> TaskNodeProps \<Rightarrow> string" where
  "label imp p = truncateMiddle imp (getLabel (element p)) (dflt 14 (truncateLength p)) ''...''"

definition nameLabel :: "Imports \<Rightarrow> TaskNodeProps \<Rightarrow> NameLabel" where
  "nameLabel imp p =
     \<lparr>text_className = [Some (topologyPipelinesPillText (styles imp))],
      text_content = label imp p\<rparr>"

definition runStatusModifier :: "Imports \<Rightarrow> TaskNodeProps \<Rightarrow> string" where
  "runStatusModifier imp p = getRunStatusModifier imp (status p)"

definition pillClasses :: "Imports \<Rightarrow> TaskNodeProps \<Rightarrow> Hooks \<Rightarrow> ClassArgs" where
  "pillClasses imp p h =
     [Some (topologyPipelinesPill (styles imp)),
      className p,
      cssWhen (isHover p h) (modifiers_hover (styles imp)),
      Some (runStatusModifier imp p),
      cssWhen (truthyFlag (selected p)) (modifiers_selected (styles imp)),
      cssWhen (isSet (onSelect p)) (modifiers_selectable (styles imp))]"

definition filter' :: "Imports \<Rightarrow> TaskNodeProps \<Rightarrow> Hooks \<Rightarrow> string option" where
  "filter' imp p h =
     (if runStatusModifier imp p = modifiers_danger (styles imp)
      then Some (createSvgIdUrl imp (NODE_SHADOW_FILTER_ID_DANGER imp))
      else if isHover p h \<and> runStatusModifier imp p \<notin> set (nonShadowModifiers imp)
      then Some (createSvgIdUrl imp (NODE_SHADOW_FILTER_ID_HOVER imp))
      else None)"

definition taskIconComponent :: "TaskNodeProps \<Rightarrow> Layout \<Rightarrow> LabelIcon option" where
  "taskIconComponent p l =
     (if truthyString (taskIconClass p) \<or> truthyReact (taskIcon p)
      then Some \<lparr>icon_x = iconStartX l + iconWidth l,
                 icon_y = (Layout.height l - iconWidth l) / 2,
                 icon_width = iconWidth l,
                 icon_height = iconWidth l,
                 icon_iconClass = taskIconClass p,
                 icon_icon = taskIcon p,
                 icon_padding = iconPadding p\<rparr>
      else None)"

definition badgeLabel :: "Imports \<Rightarrow> TaskNodeProps \<Rightarrow> Hooks \<Rightarrow> Layout \<Rightarrow> LabelBadge option" where
  "badgeLabel imp p h l =
     (case badge p of
        None \<Rightarrow> None
      | Some b \<Rightarrow>
          if b \<noteq> []
          then Some \<lparr>badge_x = badgeStartX l,
                     badge_y = (Layout.height l
                                - (case badgeSize h of None \<Rightarrow> 0 | Some s \<Rightarrow> Size.height s)) / 2,
                     badge_text = b,
                     badge_className =
                       dflt (topologyPipelinesPillBadge (styles imp)) (badgeClassName p),
                     badge_color = badgeColor p,
                     badge_textColor = badgeTextColor p,
                     badge_borderColor = badgeBorderColor p\<rparr>
          else None)"

definition badgeComponent ::
  "Imports \<Rightarrow> TaskNodeProps \<Rightarrow> Hooks \<Rightarrow> Layout \<Rightarrow> BadgeComponent option" where
  "badgeComponent imp p h l =
     (case badgeLabel imp p h l of
        None \<Rightarrow> None
      | Some b \<Rightarrow>
          (case whenTruthy (badgeTooltip p) of
             Some t \<Rightarrow> Some (BadgeTooltip t b)
           | None \<Rightarrow>
               (case badgePopoverParams p of
                  Some params \<Rightarrow> Some (BadgePopover params b)
                | None \<Rightarrow> Some (BadgeBare b))))"

text \<open>The list of statuses shown when details are hidden, after destructuring.\<close>

definition hiddenStatuses :: "TaskNodeProps \<Rightarrow> RunStatus list Nullish" where
  "hiddenStatuses p =
     (case hiddenDetailsShownStatuses p of
        Undefined \<Rightarrow> Given [Failed, FailedToStart, Cancelled]
      | Null \<Rightarrow> Null
      | Given xs \<Rightarrow> Given xs)"

definition shownWhenHidden :: "TaskNodeProps \<Rightarrow> RunStatus \<Rightarrow> bool" where
  "shownWhenHidden p s =
     (case hiddenStatuses p of
        Undefined \<Rightarrow> True
      | Null \<Rightarrow> True
      | Given xs \<Rightarrow> s \<in> set xs)"

definition statusClasses :: "Imports \<Rightarrow> TaskNodeProps \<Rightarrow> string \<Rightarrow> RunStatus \<Rightarrow> ClassArgs" where
  "statusClasses imp p base s =
     [Some base,
      Some (runStatusModifier imp p),
      cssWhen (truthyFlag (selected p)) ''pf-m-selected'',
      cssWhen (s = Running \<or> s = InProgress) (modifiers_spin (styles imp))]"

definition hidesDetails :: "TaskNodeProps \<Rightarrow> bool" where
  "hidesDetails p =
     (showState p \<and> \<not> truthyFlag (scaleNode p) \<and> truthyFlag (hideDetailsAtMedium p)
      \<and> getDetailsLevel (getGraph (element p)) \<noteq> high)"

definition statusDot :: "Imports \<Rightarrow> TaskNodeProps \<Rightarrow> StatusDot" where
  "statusDot imp p =
     (let statusBackgroundRadius = iconSize p / 2 + 4;
          height = Size.height (getBounds (element p));
          upScale = 1 / getScale (getGraph (element p))
      in \<lparr>dot_transform =
             [Translate 0 ((height - statusBackgroundRadius * 2 * upScale) / 2), Scale upScale],
           dot_circle =
             \<lparr>circle_className =
                [Some (topologyPipelinesStatusIconBackground (styles imp)),
                 Some (topologyPipelinesPillStatus (styles imp)),
                 Some (runStatusModifier imp p),
                 cssWhen (truthyFlag (selected p)) ''pf-m-selected''],
              circle_cx = statusBackgroundRadius,
              circle_cy = statusBackgroundRadius,
              circle_r = statusBackgroundRadius\<rparr>,
           dot_icon =
             (case status p of
                None \<Rightarrow> None
              | Some s \<Rightarrow>
                  if shownWhenHidden p s
                  then Some \<lparr>status_transform = [Translate 4 4],
                             status_className =
                               statusClasses imp p (topologyPipelinesStatusIcon (styles imp)) s,
                             status_icon = s\<rparr>
                  else None)\<rparr>)"

definition pill :: "Imports \<Rightarrow> TaskNodeProps \<Rightarrow> Hooks \<Rightarrow> Layout \<Rightarrow> Pill" where
  "pill imp p h l =
     \<lparr>pill_className = pillClasses imp p h,
      pill_transform = [Translate (dflt 0 (whenOffset p) + dflt 0 (whenSize p)) 0],
      pill_onClick = onSelect p,
      pill_onContextMenu = onContextMenu p,
      pill_background =
        \<lparr>rect_x = 0, rect_y = 0, rect_width = pillWidth l, rect_height = Layout.height l,
         rect_rx = Layout.height l / 2,
         rect_className = [Some (topologyPipelinesPillBackground (styles imp))],
         rect_filter = filter' imp p h\<rparr>,
      pill_label =
        \<lparr>label_transform = [Translate (textStartX l) (padY p + textHeight h / 2 + 1)],
         label_node =
           (if getLabel (element p) \<noteq> label imp p \<and> \<not> dflt False (disableTooltip p)
            then TooltipLabel (getLabel (element p)) (nameLabel imp p)
            else PlainLabel (nameLabel imp p))\<rparr>,
      pill_status =
        (case status p of
           None \<Rightarrow> None
         | Some s \<Rightarrow>
             if showState p
             then Some \<lparr>status_transform =
                          [Translate (statusStartX l + padX p / 2)
                             ((Layout.height l - iconSize p) / 2)],
                        status_className =
                          statusClasses imp p (topologyPipelinesPillStatus (styles imp)) s,
                        status_icon = s\<rparr>
             else None),
      pill_leadIcon =
        (case whenTruthy (leadIcon p) of
           None \<Rightarrow> None
         | Some n \<Rightarrow>
             Some \<lparr>lead_x = leadIconStartX l,
                   lead_y = (case leadSize h of
                               None \<Rightarrow> None
                             | Some s \<Rightarrow> Some ((Layout.height l - Size.height s) / 2)),
                   lead_icon = n\<rparr>),
      pill_taskIcon =
        (case taskIconComponent p l of
           None \<Rightarrow> None
         | Some c \<Rightarrow>
             (case whenTruthy (taskIconTooltip p) of
                Some t \<Rightarrow> Some (TaskIconTooltip t c)
              | None \<Rightarrow> Some (TaskIconPlain c))),
      pill_badge = badgeComponent imp p h l,
      pill_action =
        (case actionIcon p of
           None \<Rightarrow> None
         | Some a \<Rightarrow>
             Some \<lparr>action_separator = [Some (topologyNodeSeparator imp)],
                   action_x = actionStartX l,
                   action_height = Layout.height l,
                   action_paddingX = padX p,
                   action_icon = a,
                   action_className = actionIconClassName p,
                   action_onClick = onActionIconClick p\<rparr>),
      pill_context =
        (if textSize h = None then None
         else case onContextMenu p of
                None \<Rightarrow> None
              | Some c \<Rightarrow>
                  Some \<lparr>context_separator = [Some (topologyNodeSeparator imp)],
                        context_x = contextStartX l,
                        context_height = Layout.height l,
                        context_paddingX = padX p,
                        context_onContextMenu = c,
                        context_open = contextMenuOpen p\<rparr>),
      pill_children = children p\<rparr>"

definition renderTask :: "Imports \<Rightarrow> TaskNodeProps \<Rightarrow> Hooks \<Rightarrow> Layout \<Rightarrow> Task" where
  "renderTask imp p h l =
     (if hidesDetails p then CollapsedStatus (statusDot imp p) else FullPill (pill imp p h l))"

definition TaskNodeInner :: "Imports \<Rightarrow> TaskNodeProps \<Rightarrow> Hooks \<Rightarrow> RenderResult" where
  "TaskNodeInner imp p h =
     \<lparr>warnings =
        (if truthyString (badgePopoverProps p)
         then [''badgePopoverProps is deprecated. Use badgePopoverParams instead.'']
         else []),
      anchors =
        \<lparr>source_detailsLevel = getDetailsLevel (getGraph (element p)),
         source_offset = iconSize p + 4,
         target_offset =
           (if dflt False (hasWhenExpression p) then 0
            else dflt 0 (whenSize p) + dflt 0 (whenOffset p))\<rparr>,
      outcome =
        (case layout p h of
           Inl e \<Rightarrow> Inl e
         | Inr l \<Rightarrow>
             Inr \<lparr>view_className = [Some ''pf-topology__pipelines__task-node'', className p],
                  view_transform =
                    (if truthyFlag (scaleNode p)
                     then [Translate (translateX h) (translateY h), Scale (nodeScale h)]
                     else [Scale (nodeScale h)]),
                  view_task =
                    (case whenTruthy (toolTip p) of
                       None \<Rightarrow> Bare (renderTask imp p h l)
                     | Some t \<Rightarrow>
                         if dflt False (disableTooltip p) then Bare (renderTask imp p h l)
                         else WithToolTip t (toolTipProps p) (renderTask imp p h l))\<rparr>)\<rparr>"

subsection \<open>TaskNode\<close>

definition withDefaults :: "Imports \<Rightarrow> TaskNodeProps \<Rightarrow> TaskNodeProps" where
  "withDefaults imp p =
     p\<lparr>paddingX := Some (dflt 8 (paddingX p)),
       paddingY := Some (dflt 8 (paddingY p)),
       statusIconSize := Some (dflt STATUS_ICON_SIZE (statusIconSize p)),
       showStatusState := Some (dflt True (showStatusState p)),
       hiddenDetailsShownStatuses := hiddenStatuses p,
       badgeClassName :=
         Some (dflt (topologyPipelinesPillBadge (styles imp)) (badgeClassName p)),
       taskIconPadding := Some (dflt 4 (taskIconPadding p)),
       truncateLength := Some (dflt 14 (truncateLength p)),
       disableTooltip := Some (dflt False (disableTooltip p)),
       hasWhenExpression := Some (dflt False (hasWhenExpression p)),
       whenSize := Some (dflt 0 (whenSize p)),
       whenOffset := Some (dflt 0 (whenOffset p))\<rparr>"

definition TaskNode :: "Imports \<Rightarrow> TaskNodeProps \<Rightarrow> JsError + ReactElement" where
  "TaskNode imp p =
     (if \<not> isNode imp (element p)
      then Inl (Error ''TaskNode must be used only on Node elements'')
      else Inr (TaskNodeInnerElement (withDefaults imp p)))"

text \<open>
  Rendering the element that TaskNode returns: React calls TaskNodeInner on its props.
\<close>

definition renderTaskNode :: "Imports \<Rightarrow> TaskNodeProps \<Rightarrow> Hooks \<Rightarrow> JsError + TaskNodeView" where
  "renderTaskNode imp p h =
     (case TaskNode imp p of
        Inl e \<Rightarrow> Inl e
      | Inr (TaskNodeInnerElement q) \<Rightarrow> outcome (TaskNodeInner imp q h))"

subsection \<open>Observations and example inputs\<close>

text \<open>The text and the tooltip content of the rendered label.\<close>

fun labelText :: "LabelNode \<Rightarrow> string" where
  "labelText (PlainLabel n) = text_content n"
| "labelText (TooltipLabel c n) = text_content n"

fun labelTooltip :: "LabelNode \<Rightarrow> string option" where
  "labelTooltip (PlainLabel n) = None"
| "labelTooltip (TooltipLabel c n) = Some c"

text \<open>A measured width that is not negative; an element not measured has none.\<close>

definition nonNegativeWidth :: "Size option \<Rightarrow> bool" where
  "nonNegativeWidth sz = (case sz of None \<Rightarrow> True | Some s \<Rightarrow> 0 \<le> Size.width s)"

text \<open>
  Concrete inputs at which the model is evaluated: a node with two outgoing edges, props
  with every optional prop left out, the hook values of the first render and of a later
  one, and one instance of the imported names.
\<close>

definition exampleNode :: GraphElement where
  "exampleNode =
     \<lparr>getId = ''task-1'', getLabel = ''build-and-push-container-image'',
      getBounds = \<lparr>width = 260, height = 32\<rparr>,
      getGraph = \<lparr>getDetailsLevel = high, getScale = 1\<rparr>,
      getSourceEdges = [''edge-1'', ''edge-2'']\<rparr>"

definition zoomedOutNode :: GraphElement where
  "zoomedOutNode = exampleNode\<lparr>getGraph := \<lparr>getDetailsLevel = medium, getScale = 1 / 2\<rparr>\<rparr>"

definition propsFor :: "GraphElement \<Rightarrow> TaskNodeProps" where
  "propsFor el =
     \<lparr>children = None, className = None, element = el, paddingX = None, paddingY = None,
      nameLabelClass = None, status = None, statusIconSize = None, showStatusState = None,
      scaleNode = None, hideDetailsAtMedium = None, hiddenDetailsShownStatuses = Undefined,
      leadIcon = None, badge = None, badgeColor = None, badgeTextColor = None,
      badgeBorderColor = None, badgeClassName = None, badgePopoverProps = None,
      badgeTooltip = None, badgePopoverParams = None, taskIconClass = None, taskIcon = None,
      taskIconTooltip = None, taskIconPadding = None, hover = None, truncateLength = None,
      disableTooltip = None, toolTip = None, toolTipProps = None, hasWhenExpression = None,
      whenSize = None, whenOffset = None, actionIcon = None, actionIconClassName = None,
      onActionIconClick = None, selected = None, onSelect = None, onContextMenu = None,
      contextMenuOpen = None\<rparr>"

definition firstRender :: Hooks where
  "firstRender =
     \<lparr>hovered = False, textSize = None, statusSize = None, leadSize = None, badgeSize = None,
      actionSize = None, contextSize = None, nodeScale = 1, translateX = 0, translateY = 0\<rparr>"

definition textMeasured :: Hooks where
  "textMeasured = firstRender\<lparr>textSize := Some \<lparr>width = 84, height = 16\<rparr>\<rparr>"

definition allMeasured :: Hooks where
  "allMeasured =
     \<lparr>hovered = True,
      textSize = Some \<lparr>width = 84, height = 16\<rparr>,
      statusSize = Some \<lparr>width = 16, height = 16\<rparr>,
      leadSize = Some \<lparr>width = 12, height = 12\<rparr>,
      badgeSize = Some \<lparr>width = 30, height = 18\<rparr>,
      actionSize = Some \<lparr>width = 20, height = 32\<rparr>,
      contextSize = Some \<lparr>width = 10, height = 32\<rparr>,
      nodeScale = 1, translateX = 0, translateY = 0\<rparr>"

definition fullProps :: TaskNodeProps where
  "fullProps =
     (propsFor exampleNode)
       \<lparr>status := Some Failed, leadIcon := Some (NodeElement ''lead''), badge := Some ''3/4'',
        badgeTooltip := Some (NodeText ''three of four''),
        badgePopoverParams := Some ''popover'', taskIconClass := Some ''icon-class'',
        actionIcon := Some ''action'', onContextMenu := Some ''openMenu''\<rparr>"

definition leadIconAdded :: TaskNodeProps where
  "leadIconAdded = (propsFor exampleNode)\<lparr>leadIcon := Some (NodeElement ''lead'')\<rparr>"

definition collapsedProps :: TaskNodeProps where
  "collapsedProps =
     (propsFor zoomedOutNode)\<lparr>status := Some Running, hideDetailsAtMedium := Some True\<rparr>"

definition collapsedNullList :: TaskNodeProps where
  "collapsedNullList = collapsedProps\<lparr>hiddenDetailsShownStatuses := Null\<rparr>"

definition exampleStyles :: Styles where
  "exampleStyles =
     \<lparr>topologyPipelinesPill = ''pill'', topologyPipelinesPillText = ''pill-text'',
      topologyPipelinesPillBadge = ''pill-badge'',
      topologyPipelinesPillBackground = ''pill-background'',
      topologyPipelinesPillStatus = ''pill-status'',
      topologyPipelinesStatusIcon = ''status-icon'',
      topologyPipelinesStatusIconBackground = ''status-icon-background'',
      modifiers_hover = ''m-hover'', modifiers_danger = ''m-danger'',
      modifiers_selected = ''m-selected'', modifiers_selectable = ''m-selectable'',
      modifiers_spin = ''m-spin''\<rparr>"

fun exampleModifier :: "RunStatus option \<Rightarrow> string" where
  "exampleModifier (Some Failed) = ''m-danger''"
| "exampleModifier (Some FailedToStart) = ''m-danger''"
| "exampleModifier (Some Cancelled) = ''m-warning''"
| "exampleModifier (Some Running) = ''m-running''"
| "exampleModifier (Some InProgress) = ''m-in-progress''"
| "exampleModifier (Some (OtherStatus s)) = ''m-other''"
| "exampleModifier None = []"

definition exampleTruncate :: "string \<Rightarrow> real \<Rightarrow> string \<Rightarrow> string" where
  "exampleTruncate s n omission =
     (if real (length s) \<le> n then s
      else take (nat \<lfloor>n / 2\<rfloor>) s @ omission @ drop (length s - nat \<lfloor>n / 2\<rfloor>) s)"

definition exampleImports :: Imports where
  "exampleImports =
     \<lparr>styles = exampleStyles, topologyNodeSeparator = ''separator'',
      isNode = (\<lambda>el. getId el \<noteq> ''graph''),
      truncateMiddle = exampleTruncate,
      getRunStatusModifier = exampleModifier,
      nonShadowModifiers = [''m-danger'', ''m-warning''],
      createSvgIdUrl = (\<lambda>i. ''url(#'' @ i @ '')''),
      NODE_SHADOW_FILTER_ID_DANGER = ''shadow-danger'',
      NODE_SHADOW_FILTER_ID_HOVER = ''shadow-hover''\<rparr>"

definition fullLayout :: Layout where
  "fullLayout =
     \<lparr>height = 32, statusStartX = 8, textStartX = 56, actionStartX = 186,
      contextStartX = 214, pillWidth = 232, badgeStartX = 148, iconWidth = 28,
      iconStartX = - 21, leadIconStartX = 36\<rparr>"

definition restyledProps :: TaskNodeProps where
  "restyledProps =
     fullProps\<lparr>className := Some ''highlight'', status := Some Running,
       leadIcon := Some (NodeText ''L''), hover := Some False, selected := Some True\<rparr>"

definition laterRender :: Hooks where
  "laterRender = allMeasured\<lparr>hovered := False, nodeScale := 2\<rparr>"

definition graphElement :: GraphElement where
  "graphElement = exampleNode\<lparr>getId := ''graph''\<rparr>"

definition exampleStore :: EdgeStore where
  "exampleStore =
     (\<lambda>e. if e = ''edge-1''
          then Some [''kind'' \<mapsto> JsString ''flow'', ''indent'' \<mapsto> JsNumber 3]
          else None)"

definition hoveredProps :: TaskNodeProps where
  "hoveredProps = (propsFor exampleNode)\<lparr>status := Some Running, hover := Some True\<rparr>"

definition shortLabelProps :: TaskNodeProps where
  "shortLabelProps = propsFor (exampleNode\<lparr>getLabel := ''build''\<rparr>)"

definition bareBadgeProps :: TaskNodeProps where
  "bareBadgeProps = (propsFor exampleNode)\<lparr>badge := Some ''3/4''\<rparr>"

definition popoverBadgeProps :: TaskNodeProps where
  "popoverBadgeProps = bareBadgeProps\<lparr>badgePopoverParams := Some ''popover''\<rparr>"

definition exampleBadge :: LabelBadge where
  "exampleBadge =
     \<lparr>badge_x = 148, badge_y = 7, badge_text = ''3/4'', badge_className = ''pill-badge'',
      badge_color = None, badge_textColor = None, badge_borderColor = None\<rparr>"

section \<open>Properties\<close>

lemmas truthy_defs = isSet_def truthyFlag_def truthyString_def truthyReact_def whenTruthy_def dflt_def

lemmas space_defs = statusSpace_def leadIconSpace_def badgeSpace_def actionSpace_def contextSpace_def

lemmas example_defs = exampleNode_def zoomedOutNode_def propsFor_def firstRender_def
  textMeasured_def allMeasured_def fullProps_def leadIconAdded_def collapsedProps_def
  collapsedNullList_def exampleStyles_def exampleTruncate_def exampleImports_def

subsection \<open>The layout pass: properties\<close>

lemma layout_throws:
  "textSize h \<noteq> None \<Longrightarrow> truthyReact (leadIcon p) \<Longrightarrow> leadSize h = None \<Longrightarrow>
   layout p h = Inl (TypeError ''Cannot read properties of undefined (reading width)'')"
  by (simp add: layout_def leadIconSpace_def Let_def)

lemma layout_returns:
  "textSize h = None \<or> \<not> truthyReact (leadIcon p) \<or> leadSize h \<noteq> None \<Longrightarrow>
   \<exists>l. layout p h = Inr l"
  by (auto simp add: layout_def leadIconSpace_def Let_def)

lemma layout_measured:
  assumes "layout p h = Inr l" and "textSize h = Some ts"
  shows "Layout.height l = Size.height ts + 2 * padY p"
    and "statusStartX l = padX p + padX p / 2 - iconSize p / 4"
    and "leadIconStartX l = padX p + padX p / 2 + statusSpace p h"
    and "leadIconSpace p h = Inr (textStartX l - leadIconStartX l)"
    and "badgeStartX l = textStartX l + Size.width ts + padX p"
    and "actionStartX l = badgeStartX l + badgeSpace p h"
    and "contextStartX l = actionStartX l + actionSpace p h"
    and "pillWidth l = contextStartX l + contextSpace p h + padX p / 2"
    and "iconWidth l = (if truthyString (taskIconClass p) \<or> truthyReact (taskIcon p)
                        then Layout.height l - iconPadding p else 0)"
    and "iconStartX l = - (iconWidth l * 0.75)"
  using assms
  by (auto simp add: layout_def Let_def textWidth_def textHeight_def split: sum.splits)

lemma layout_fullProps: "layout fullProps allMeasured = Inr fullLayout"
  by (simp add: layout_def Let_def space_defs truthy_defs example_defs fullLayout_def
      textWidth_def textHeight_def STATUS_ICON_SIZE_def)

text \<open>
  C1. With a measured text label the offsets form an additive chain, as the lemma
  \<open>layout_measured\<close> states for every layout that is returned. No layout is returned in a
  render where the lead icon is present and has not been measured: the text label is
  measured, \<^verbatim>\<open>leadSize\<close> is \<^verbatim>\<open>undefined\<close>, and reading its width throws a TypeError.
\<close>

theorem layout_lead_icon_unmeasured:
  "textSize textMeasured = Some \<lparr>width = 84, height = 16\<rparr>
   \<and> leadIcon leadIconAdded = Some (NodeElement ''lead'')
   \<and> leadSize textMeasured = None
   \<and> layout leadIconAdded textMeasured
       = Inl (TypeError ''Cannot read properties of undefined (reading width)'')
   \<and> renderTaskNode exampleImports leadIconAdded textMeasured
       = Inl (TypeError ''Cannot read properties of undefined (reading width)'')"
  by (simp add: renderTaskNode_def TaskNode_def TaskNodeInner_def withDefaults_def
      layout_def Let_def space_defs truthy_defs example_defs)

text \<open>
  C2. In every render with a measured text label, non-negative paddings and status icon
  size and non-negative measured widths, the offsets that the layout pass computes increase
  from left to right: statusStartX, leadIconStartX, textStartX, badgeStartX, actionStartX,
  contextStartX, pillWidth.
\<close>

theorem layout_offsets_monotone:
  assumes "layout p h = Inr l" and "textSize h = Some ts"
    and "0 \<le> padX p" and "0 \<le> padY p" and "0 \<le> iconSize p"
    and "0 \<le> Size.width ts"
    and "nonNegativeWidth (statusSize h)" and "nonNegativeWidth (leadSize h)"
    and "nonNegativeWidth (badgeSize h)" and "nonNegativeWidth (actionSize h)"
    and "nonNegativeWidth (contextSize h)"
  shows "statusStartX l \<le> leadIconStartX l \<and> leadIconStartX l \<le> textStartX l
       \<and> textStartX l \<le> badgeStartX l \<and> badgeStartX l \<le> actionStartX l
       \<and> actionStartX l \<le> contextStartX l \<and> contextStartX l \<le> pillWidth l"
proof -
  note m = layout_measured [OF assms(1,2)]
  have s: "0 \<le> statusSpace p h"
    using assms(3,7) by (simp add: statusSpace_def nonNegativeWidth_def split: option.splits)
  have ld: "leadIconSpace p h = Inr x \<Longrightarrow> 0 \<le> x" for x
    using assms(3,8)
    by (auto simp add: leadIconSpace_def nonNegativeWidth_def split: option.splits if_splits)
  have b: "0 \<le> badgeSpace p h"
    using assms(3,9) by (simp add: badgeSpace_def nonNegativeWidth_def split: option.splits)
  have a: "0 \<le> actionSpace p h"
    using assms(3,10) by (simp add: actionSpace_def nonNegativeWidth_def split: option.splits)
  have c: "0 \<le> contextSpace p h"
    using assms(3,11) by (simp add: contextSpace_def nonNegativeWidth_def split: option.splits)
  have "statusStartX l \<le> leadIconStartX l"
    using m(2,3) s assms(5) by simp
  moreover have "leadIconStartX l \<le> textStartX l"
    using ld [OF m(4)] by simp
  moreover have "textStartX l \<le> badgeStartX l"
    using m(5) assms(3,6) by simp
  moreover have "badgeStartX l \<le> actionStartX l"
    using m(6) b by simp
  moreover have "actionStartX l \<le> contextStartX l"
    using m(7) a by simp
  moreover have "contextStartX l \<le> pillWidth l"
    using m(8) c assms(3) by simp
  ultimately show ?thesis by simp
qed

theorem layout_offsets_monotone_witness:
  "layout fullProps allMeasured = Inr fullLayout
   \<and> textSize allMeasured = Some \<lparr>width = 84, height = 16\<rparr>
   \<and> 0 \<le> padX fullProps \<and> 0 \<le> padY fullProps \<and> 0 \<le> iconSize fullProps
   \<and> nonNegativeWidth (statusSize allMeasured) \<and> nonNegativeWidth (leadSize allMeasured)
   \<and> nonNegativeWidth (badgeSize allMeasured) \<and> nonNegativeWidth (actionSize allMeasured)
   \<and> nonNegativeWidth (contextSize allMeasured)
   \<and> statusStartX fullLayout \<le> leadIconStartX fullLayout
   \<and> leadIconStartX fullLayout \<le> textStartX fullLayout
   \<and> textStartX fullLayout \<le> badgeStartX fullLayout
   \<and> badgeStartX fullLayout \<le> actionStartX fullLayout
   \<and> actionStartX fullLayout \<le> contextStartX fullLayout
   \<and> contextStartX fullLayout \<le> pillWidth fullLayout"
proof -
  have ts: "textSize allMeasured = Some \<lparr>width = 84, height = 16\<rparr>"
    by (simp add: allMeasured_def)
  have pads: "0 \<le> padX fullProps" "0 \<le> padY fullProps" "0 \<le> iconSize fullProps"
    by (simp_all add: fullProps_def propsFor_def dflt_def STATUS_ICON_SIZE_def)
  have tw: "0 \<le> Size.width \<lparr>width = 84, height = 16\<rparr>"
    by simp
  have nn: "nonNegativeWidth (statusSize allMeasured)" "nonNegativeWidth (leadSize allMeasured)"
    "nonNegativeWidth (badgeSize allMeasured)" "nonNegativeWidth (actionSize allMeasured)"
    "nonNegativeWidth (contextSize allMeasured)"
    by (simp_all add: allMeasured_def nonNegativeWidth_def)
  from layout_offsets_monotone [OF layout_fullProps ts pads tw nn]
  show ?thesis using layout_fullProps ts pads nn by simp
qed

text \<open>
  C7. The layout pass is a function of the measured sizes, the paddings, the status icon
  size, the task icon padding and the presence flags alone: two renders that agree on them
  have the same outcome, whatever their other props and hook values are.
\<close>

theorem layout_deterministic:
  assumes "textSize h = textSize h'" and "statusSize h = statusSize h'"
    and "leadSize h = leadSize h'" and "badgeSize h = badgeSize h'"
    and "actionSize h = actionSize h'" and "contextSize h = contextSize h'"
    and "padX p = padX p'" and "padY p = padY p'"
    and "iconSize p = iconSize p'" and "iconPadding p = iconPadding p'"
    and "isSet (status p) = isSet (status p')" and "showState p = showState p'"
    and "truthyReact (leadIcon p) = truthyReact (leadIcon p')"
    and "truthyString (badge p) = truthyString (badge p')"
    and "(truthyString (taskIconClass p) \<or> truthyReact (taskIcon p))
         = (truthyString (taskIconClass p') \<or> truthyReact (taskIcon p'))"
    and "isSet (actionIcon p) = isSet (actionIcon p')"
    and "isSet (onContextMenu p) = isSet (onContextMenu p')"
  shows "layout p h = layout p' h'"
proof -
  have spaces:
    "statusSpace p h = statusSpace p' h'" "leadIconSpace p h = leadIconSpace p' h'"
    "badgeSpace p h = badgeSpace p' h'" "actionSpace p h = actionSpace p' h'"
    "contextSpace p h = contextSpace p' h'"
    using assms(2-7,11-14,16,17)
    by (simp_all add: space_defs split: option.splits)
  have texts: "textWidth h = textWidth h'" "textHeight h = textHeight h'"
    using assms(1) by (simp_all add: textWidth_def textHeight_def)
  show ?thesis
    unfolding layout_def spaces texts assms(1,7,8,9,10,15) by (rule refl)
qed

theorem layout_deterministic_witness:
  "textSize allMeasured = textSize laterRender \<and> statusSize allMeasured = statusSize laterRender
   \<and> leadSize allMeasured = leadSize laterRender \<and> badgeSize allMeasured = badgeSize laterRender
   \<and> actionSize allMeasured = actionSize laterRender
   \<and> contextSize allMeasured = contextSize laterRender
   \<and> padX fullProps = padX restyledProps \<and> padY fullProps = padY restyledProps
   \<and> iconSize fullProps = iconSize restyledProps
   \<and> iconPadding fullProps = iconPadding restyledProps
   \<and> isSet (status fullProps) = isSet (status restyledProps)
   \<and> showState fullProps = showState restyledProps
   \<and> truthyReact (leadIcon fullProps) = truthyReact (leadIcon restyledProps)
   \<and> truthyString (badge fullProps) = truthyString (badge restyledProps)
   \<and> isSet (actionIcon fullProps) = isSet (actionIcon restyledProps)
   \<and> isSet (onContextMenu fullProps) = isSet (onContextMenu restyledProps)
   \<and> status fullProps \<noteq> status restyledProps
   \<and> hovered allMeasured \<noteq> hovered laterRender
   \<and> layout fullProps allMeasured = layout restyledProps laterRender"
proof -
  have sizes: "textSize allMeasured = textSize laterRender"
    "statusSize allMeasured = statusSize laterRender"
    "leadSize allMeasured = leadSize laterRender" "badgeSize allMeasured = badgeSize laterRender"
    "actionSize allMeasured = actionSize laterRender"
    "contextSize allMeasured = contextSize laterRender"
    by (simp_all add: laterRender_def)
  have pads: "padX fullProps = padX restyledProps" "padY fullProps = padY restyledProps"
    "iconSize fullProps = iconSize restyledProps"
    "iconPadding fullProps = iconPadding restyledProps"
    by (simp_all add: restyledProps_def)
  have flags: "isSet (status fullProps) = isSet (status restyledProps)"
    "showState fullProps = showState restyledProps"
    "truthyReact (leadIcon fullProps) = truthyReact (leadIcon restyledProps)"
    "truthyString (badge fullProps) = truthyString (badge restyledProps)"
    "(truthyString (taskIconClass fullProps) \<or> truthyReact (taskIcon fullProps))
       = (truthyString (taskIconClass restyledProps) \<or> truthyReact (taskIcon restyledProps))"
    "isSet (actionIcon fullProps) = isSet (actionIcon restyledProps)"
    "isSet (onContextMenu fullProps) = isSet (onContextMenu restyledProps)"
    by (simp_all add: restyledProps_def fullProps_def propsFor_def truthy_defs)
  have differ: "status fullProps \<noteq> status restyledProps"
    "hovered allMeasured \<noteq> hovered laterRender"
    by (simp_all add: restyledProps_def fullProps_def laterRender_def allMeasured_def)
  from layout_deterministic [OF sizes pads flags]
  show ?thesis using sizes pads flags differ by simp
qed

text \<open>
  C10. While the text label has no measured size, the layout pass returns a layout all of
  whose ten values are zero, and a pill drawn from it has a background of width and height
  zero.
\<close>

theorem unmeasured_layout_zero:
  assumes "textSize h = None"
  shows "\<exists>l. layout p h = Inr l
       \<and> Layout.height l = 0 \<and> statusStartX l = 0 \<and> textStartX l = 0 \<and> actionStartX l = 0
       \<and> contextStartX l = 0 \<and> pillWidth l = 0 \<and> badgeStartX l = 0 \<and> iconWidth l = 0
       \<and> iconStartX l = 0 \<and> leadIconStartX l = 0
       \<and> (\<forall>imp q. renderTask imp p h l = FullPill q \<longrightarrow>
             rect_width (pill_background q) = 0 \<and> rect_height (pill_background q) = 0)"
  using assms
  by (auto simp add: layout_def unmeasuredLayout_def renderTask_def pill_def split: if_splits)

theorem unmeasured_layout_zero_witness:
  "textSize firstRender = None
   \<and> layout fullProps firstRender = Inr unmeasuredLayout
   \<and> pillWidth unmeasuredLayout = 0 \<and> Layout.height unmeasuredLayout = 0
   \<and> renderTask exampleImports fullProps firstRender unmeasuredLayout
       = FullPill (pill exampleImports fullProps firstRender unmeasuredLayout)
   \<and> rect_width (pill_background (pill exampleImports fullProps firstRender unmeasuredLayout)) = 0
   \<and> rect_height (pill_background (pill exampleImports fullProps firstRender unmeasuredLayout)) = 0"
proof -
  have ts: "textSize firstRender = None"
    by (simp add: firstRender_def)
  have lay: "layout fullProps firstRender = Inr unmeasuredLayout"
    by (simp add: layout_def ts)
  have full: "renderTask exampleImports fullProps firstRender unmeasuredLayout
       = FullPill (pill exampleImports fullProps firstRender unmeasuredLayout)"
    by (simp add: renderTask_def hidesDetails_def fullProps_def propsFor_def truthy_defs)
  from unmeasured_layout_zero [OF ts, of fullProps]
  show ?thesis using ts lay full by auto
qed

subsection \<open>The source-edge indent effect: properties\<close>

lemma withIndent_idem: "withIndent v (Some (withIndent v d)) = withIndent v d"
  by (simp add: withIndent_def)

lemma fold_setIndent:
  "fold (setIndent v) es st e = (if e \<in> set es then Some (withIndent v (st e)) else st e)"
proof (induction es arbitrary: st)
  case Nil
  show ?case by simp
next
  case (Cons x xs)
  have step: "setIndent v x st y = (if y = x then Some (withIndent v (st y)) else st y)" for y
    by (simp add: setIndent_def)
  have "fold (setIndent v) (x # xs) st e = fold (setIndent v) xs (setIndent v x st) e"
    by simp
  also have "\<dots> = (if e \<in> set xs then Some (withIndent v (setIndent v x st e))
                    else setIndent v x st e)"
    by (rule Cons.IH)
  also have "\<dots> = (if e \<in> set (x # xs) then Some (withIndent v (st e)) else st e)"
    by (simp add: step withIndent_idem)
  finally show ?case .
qed

text \<open>
  C4. After the effect, the data of every outgoing edge of the node is an object whose
  field indent is the node width minus the pill width at the details level high and zero
  otherwise, and whose other fields are those of the previous data (none when the edge had
  no data).
\<close>

theorem indentEffect_source_edge:
  assumes "e \<in> set (getSourceEdges el)"
  shows "\<exists>d. indentEffect el pw st e = Some d
       \<and> d ''indent''
           = Some (JsNumber (if getDetailsLevel (getGraph el) = high
                             then Size.width (getBounds el) - pw else 0))
       \<and> (\<forall>k. k \<noteq> ''indent'' \<longrightarrow> d k = (case st e of None \<Rightarrow> None | Some m \<Rightarrow> m k))"
  using assms
  by (simp add: indentEffect_def fold_setIndent withIndent_def indentOf_def split: option.splits)

theorem indentEffect_source_edge_witness:
  "''edge-1'' \<in> set (getSourceEdges exampleNode)
   \<and> (\<exists>d. indentEffect exampleNode 232 exampleStore ''edge-1'' = Some d
          \<and> d ''indent'' = Some (JsNumber 28) \<and> d ''kind'' = Some (JsString ''flow''))"
proof -
  have mem: "''edge-1'' \<in> set (getSourceEdges exampleNode)"
    by (simp add: exampleNode_def)
  from indentEffect_source_edge [OF mem, of 232 exampleStore]
  obtain d where d: "indentEffect exampleNode 232 exampleStore ''edge-1'' = Some d"
    "d ''indent'' = Some (JsNumber (if getDetailsLevel (getGraph exampleNode) = high
                             then Size.width (getBounds exampleNode) - 232 else 0))"
    "\<forall>k. k \<noteq> ''indent'' \<longrightarrow>
        d k = (case exampleStore ''edge-1'' of None \<Rightarrow> None | Some m \<Rightarrow> m k)"
    by blast
  have "d ''indent'' = Some (JsNumber 28)"
    using d(2) by (simp add: exampleNode_def)
  moreover have "d ''kind'' = Some (JsString ''flow'')"
    using d(3) by (simp add: exampleStore_def)
  ultimately show ?thesis using mem d(1) by blast
qed

lemma indentEffect_other_edge:
  "e \<notin> set (getSourceEdges el) \<Longrightarrow> indentEffect el pw st e = st e"
  by (simp add: indentEffect_def fold_setIndent)

subsection \<open>The rendered tree: properties\<close>

text \<open>
  A collapsed render whose list of shown statuses is \<^verbatim>\<open>null\<close>: the status Running is
  a member of no list, and its icon is drawn.
\<close>

theorem renderTask_collapsed_null_list:
  "hiddenDetailsShownStatuses collapsedNullList = Null
   \<and> status collapsedNullList = Some Running
   \<and> renderTask exampleImports collapsedNullList firstRender unmeasuredLayout
       = CollapsedStatus (statusDot exampleImports collapsedNullList)
   \<and> dot_icon (statusDot exampleImports collapsedNullList) \<noteq> None"
  by (simp add: renderTask_def hidesDetails_def statusDot_def shownWhenHidden_def
      hiddenStatuses_def Let_def truthy_defs example_defs)

text \<open>
  C3. renderTask returns the collapsed status dot, scaled by one over the graph scale,
  exactly when showStatusState is true, scaleNode is falsy, hideDetailsAtMedium is true and
  the details level is not high, and the full pill otherwise. In the collapsed rendering the
  status icon is drawn if and only if a status is set and either the list
  hiddenDetailsShownStatuses is \<^verbatim>\<open>null\<close> or the status is a member of it, the list
  being Failed, FailedToStart, Cancelled when the prop is left out.
\<close>

theorem renderTask_collapsed:
  "((\<exists>d. renderTask imp p h l = CollapsedStatus d) \<longleftrightarrow>
      (showState p \<and> \<not> truthyFlag (scaleNode p) \<and> truthyFlag (hideDetailsAtMedium p)
       \<and> getDetailsLevel (getGraph (element p)) \<noteq> high))
   \<and> (\<forall>d. renderTask imp p h l = CollapsedStatus d \<longrightarrow>
         ((dot_icon d \<noteq> None) \<longleftrightarrow>
            (\<exists>s. status p = Some s
               \<and> (case hiddenDetailsShownStatuses p of
                     Undefined \<Rightarrow> s \<in> {Failed, FailedToStart, Cancelled}
                   | Null \<Rightarrow> True
                   | Given xs \<Rightarrow> s \<in> set xs)))
         \<and> (getScale (getGraph (element p)) \<noteq> 0 \<longrightarrow>
              dot_transform d
                = [Translate 0
                     ((Size.height (getBounds (element p))
                       - (iconSize p / 2 + 4) * 2 * (1 / getScale (getGraph (element p)))) / 2),
                   Scale (1 / getScale (getGraph (element p)))]))
   \<and> ((\<exists>q. renderTask imp p h l = FullPill q) \<longleftrightarrow>
      \<not> (showState p \<and> \<not> truthyFlag (scaleNode p) \<and> truthyFlag (hideDetailsAtMedium p)
         \<and> getDetailsLevel (getGraph (element p)) \<noteq> high))"
proof -
  have icon: "(dot_icon (statusDot imp p) \<noteq> None) \<longleftrightarrow>
      (\<exists>s. status p = Some s
         \<and> (case hiddenDetailsShownStatuses p of
               Undefined \<Rightarrow> s \<in> {Failed, FailedToStart, Cancelled}
             | Null \<Rightarrow> True
             | Given xs \<Rightarrow> s \<in> set xs))"
    by (auto simp add: statusDot_def Let_def shownWhenHidden_def hiddenStatuses_def
        split: option.splits Nullish.splits)
  have tr: "dot_transform (statusDot imp p)
      = [Translate 0
           ((Size.height (getBounds (element p))
             - (iconSize p / 2 + 4) * 2 * (1 / getScale (getGraph (element p)))) / 2),
         Scale (1 / getScale (getGraph (element p)))]"
    by (simp add: statusDot_def Let_def)
  show ?thesis
    using icon tr by (auto simp add: renderTask_def hidesDetails_def)
qed

theorem renderTask_collapsed_witness:
  "renderTask exampleImports collapsedNullList firstRender unmeasuredLayout
     = CollapsedStatus (statusDot exampleImports collapsedNullList)
   \<and> showState collapsedNullList \<and> \<not> truthyFlag (scaleNode collapsedNullList)
   \<and> truthyFlag (hideDetailsAtMedium collapsedNullList)
   \<and> getDetailsLevel (getGraph (element collapsedNullList)) \<noteq> high
   \<and> getScale (getGraph (element collapsedNullList)) \<noteq> 0
   \<and> dot_icon (statusDot exampleImports collapsedNullList) \<noteq> None
   \<and> dot_icon (statusDot exampleImports collapsedProps) = None
   \<and> dot_transform (statusDot exampleImports collapsedNullList) = [Translate 0 (- 8), Scale 2]"
proof -
  have r: "renderTask exampleImports collapsedNullList firstRender unmeasuredLayout
     = CollapsedStatus (statusDot exampleImports collapsedNullList)"
   and r': "renderTask exampleImports collapsedProps firstRender unmeasuredLayout
     = CollapsedStatus (statusDot exampleImports collapsedProps)"
    by (simp_all add: renderTask_def hidesDetails_def truthy_defs example_defs)
  have c: "showState collapsedNullList" "\<not> truthyFlag (scaleNode collapsedNullList)"
    "truthyFlag (hideDetailsAtMedium collapsedNullList)"
    "getDetailsLevel (getGraph (element collapsedNullList)) \<noteq> high"
    "getScale (getGraph (element collapsedNullList)) \<noteq> 0"
    by (simp_all add: truthy_defs example_defs)
  have s: "status collapsedNullList = Some Running"
    "hiddenDetailsShownStatuses collapsedNullList = Null"
    "status collapsedProps = Some Running"
    "hiddenDetailsShownStatuses collapsedProps = Undefined"
    by (simp_all add: example_defs)
  have t: "dot_transform (statusDot exampleImports collapsedNullList) = [Translate 0 (- 8), Scale 2]"
    by (simp add: statusDot_def Let_def truthy_defs example_defs STATUS_ICON_SIZE_def)
  from renderTask_collapsed [of exampleImports collapsedNullList firstRender unmeasuredLayout]
    renderTask_collapsed [of exampleImports collapsedProps firstRender unmeasuredLayout]
  show ?thesis using r r' c s t by simp
qed

text \<open>
  C5. In the full pill the arguments of the class list contain the modifier of the run
  status. The filter of the background is the danger shadow when that modifier is the danger
  modifier, whether the node is hovered or not; otherwise it is the hover shadow when the
  node is hovered and the modifier is not among nonShadowModifiers; otherwise there is none.
\<close>

theorem pill_status_styling:
  assumes "renderTask imp p h l = FullPill q"
  shows "Some (getRunStatusModifier imp (status p)) \<in> set (pill_className q)
     \<and> (getRunStatusModifier imp (status p) = modifiers_danger (styles imp) \<longrightarrow>
          rect_filter (pill_background q)
            = Some (createSvgIdUrl imp (NODE_SHADOW_FILTER_ID_DANGER imp)))
     \<and> (getRunStatusModifier imp (status p) \<noteq> modifiers_danger (styles imp)
          \<and> isHover p h
          \<and> getRunStatusModifier imp (status p) \<notin> set (nonShadowModifiers imp) \<longrightarrow>
          rect_filter (pill_background q)
            = Some (createSvgIdUrl imp (NODE_SHADOW_FILTER_ID_HOVER imp)))
     \<and> (getRunStatusModifier imp (status p) \<noteq> modifiers_danger (styles imp)
          \<and> \<not> (isHover p h
                \<and> getRunStatusModifier imp (status p) \<notin> set (nonShadowModifiers imp)) \<longrightarrow>
          rect_filter (pill_background q) = None)
     \<and> (modifiers_danger (styles imp) \<in> set (nonShadowModifiers imp)
          \<and> isHover p h
          \<and> getRunStatusModifier imp (status p) \<notin> set (nonShadowModifiers imp) \<longrightarrow>
          rect_filter (pill_background q)
            = Some (createSvgIdUrl imp (NODE_SHADOW_FILTER_ID_HOVER imp)))"
proof -
  have q: "q = pill imp p h l"
    using assms by (simp add: renderTask_def split: if_splits)
  have cls: "pill_className q = pillClasses imp p h"
    and flt: "rect_filter (pill_background q) = filter' imp p h"
    by (simp_all add: q pill_def)
  have "Some (getRunStatusModifier imp (status p)) \<in> set (pillClasses imp p h)"
    by (simp add: pillClasses_def runStatusModifier_def)
  then show ?thesis
    unfolding cls flt by (auto simp add: filter'_def runStatusModifier_def)
qed

theorem pill_status_styling_witness:
  "renderTask exampleImports fullProps allMeasured fullLayout
     = FullPill (pill exampleImports fullProps allMeasured fullLayout)
   \<and> getRunStatusModifier exampleImports (status fullProps)
       = modifiers_danger (styles exampleImports)
   \<and> Some ''m-danger'' \<in> set (pill_className (pill exampleImports fullProps allMeasured fullLayout))
   \<and> rect_filter (pill_background (pill exampleImports fullProps allMeasured fullLayout))
       = Some ''url(#shadow-danger)''
   \<and> renderTask exampleImports hoveredProps textMeasured fullLayout
       = FullPill (pill exampleImports hoveredProps textMeasured fullLayout)
   \<and> isHover hoveredProps textMeasured
   \<and> getRunStatusModifier exampleImports (status hoveredProps)
       \<notin> set (nonShadowModifiers exampleImports)
   \<and> rect_filter (pill_background (pill exampleImports hoveredProps textMeasured fullLayout))
       = Some ''url(#shadow-hover)''"
proof -
  have r: "renderTask exampleImports fullProps allMeasured fullLayout
     = FullPill (pill exampleImports fullProps allMeasured fullLayout)"
    and r': "renderTask exampleImports hoveredProps textMeasured fullLayout
       = FullPill (pill exampleImports hoveredProps textMeasured fullLayout)"
    by (simp_all add: renderTask_def hidesDetails_def truthy_defs example_defs hoveredProps_def)
  have m: "getRunStatusModifier exampleImports (status fullProps) = ''m-danger''"
    "getRunStatusModifier exampleImports (status hoveredProps) = ''m-running''"
    "modifiers_danger (styles exampleImports) = ''m-danger''"
    "nonShadowModifiers exampleImports = [''m-danger'', ''m-warning'']"
    "createSvgIdUrl exampleImports (NODE_SHADOW_FILTER_ID_DANGER exampleImports)
       = ''url(#shadow-danger)''"
    "createSvgIdUrl exampleImports (NODE_SHADOW_FILTER_ID_HOVER exampleImports)
       = ''url(#shadow-hover)''"
    by (simp_all add: example_defs hoveredProps_def)
  have hv: "isHover hoveredProps textMeasured"
    by (simp add: isHover_def hoveredProps_def)
  from pill_status_styling [OF r] pill_status_styling [OF r']
  show ?thesis using r r' hv by (simp add: m)
qed

text \<open>
  C6. In the full pill the text of the label is truncateMiddle of the element's label with
  the length truncateLength, 14 by default, and the omission of three dots; the label has a
  tooltip, whose content is the element's label, if and only if the truncated label differs
  from the element's label and disableTooltip is false.
\<close>

theorem label_truncated_with_tooltip:
  assumes "renderTask imp p h l = FullPill q"
  shows "labelText (label_node (pill_label q))
           = truncateMiddle imp (getLabel (element p)) (dflt 14 (truncateLength p)) ''...''
       \<and> labelTooltip (label_node (pill_label q))
           = (if truncateMiddle imp (getLabel (element p)) (dflt 14 (truncateLength p)) ''...''
                   \<noteq> getLabel (element p)
                 \<and> \<not> dflt False (disableTooltip p)
              then Some (getLabel (element p)) else None)"
proof -
  have q: "q = pill imp p h l"
    using assms by (simp add: renderTask_def split: if_splits)
  show ?thesis
    by (auto simp add: q pill_def nameLabel_def label_def)
qed

theorem label_truncated_with_tooltip_witness:
  "renderTask exampleImports fullProps allMeasured fullLayout
     = FullPill (pill exampleImports fullProps allMeasured fullLayout)
   \<and> labelText (label_node (pill_label (pill exampleImports fullProps allMeasured fullLayout)))
       = ''build-a...r-image''
   \<and> labelTooltip (label_node (pill_label (pill exampleImports fullProps allMeasured fullLayout)))
       = Some ''build-and-push-container-image''
   \<and> renderTask exampleImports shortLabelProps textMeasured fullLayout
     = FullPill (pill exampleImports shortLabelProps textMeasured fullLayout)
   \<and> labelText (label_node (pill_label (pill exampleImports shortLabelProps textMeasured fullLayout)))
       = ''build''
   \<and> labelTooltip (label_node (pill_label (pill exampleImports shortLabelProps textMeasured fullLayout)))
       = None"
proof -
  have r: "renderTask exampleImports fullProps allMeasured fullLayout
     = FullPill (pill exampleImports fullProps allMeasured fullLayout)"
    and r': "renderTask exampleImports shortLabelProps textMeasured fullLayout
     = FullPill (pill exampleImports shortLabelProps textMeasured fullLayout)"
    by (simp_all add: renderTask_def hidesDetails_def truthy_defs example_defs
        shortLabelProps_def)
  have t: "getLabel (element fullProps) = ''build-and-push-container-image''"
    "truncateMiddle exampleImports ''build-and-push-container-image''
       (dflt 14 (truncateLength fullProps)) ''...'' = ''build-a...r-image''"
    "dflt False (disableTooltip fullProps) = False"
    "getLabel (element shortLabelProps) = ''build''"
    "truncateMiddle exampleImports ''build''
       (dflt 14 (truncateLength shortLabelProps)) ''...'' = ''build''"
    "dflt False (disableTooltip shortLabelProps) = False"
    by (simp_all add: truthy_defs example_defs shortLabelProps_def)
  from label_truncated_with_tooltip [OF r] label_truncated_with_tooltip [OF r']
  show ?thesis using r r' by (simp add: t)
qed

text \<open>
  C9. Without a badge there is no badge component. With a badge, the badge label is wrapped
  in a tooltip when badgeTooltip is given, whether badgePopoverParams is given or not; in a
  popover when badgeTooltip is absent and badgePopoverParams is given, and only then; and it
  is rendered bare when neither is given.
\<close>

theorem badgeComponent_precedence:
  "(\<not> truthyString (badge p) \<longrightarrow> badgeComponent imp p h l = None)
   \<and> (truthyString (badge p) \<longrightarrow>
        (\<exists>b. badgeLabel imp p h l = Some b \<and> Some (badge_text b) = badge p
           \<and> (truthyReact (badgeTooltip p) \<longrightarrow>
                (\<exists>t. badgeTooltip p = Some t
                    \<and> badgeComponent imp p h l = Some (BadgeTooltip t b)))
           \<and> (\<not> truthyReact (badgeTooltip p) \<and> isSet (badgePopoverParams p) \<longrightarrow>
                (\<exists>params. badgePopoverParams p = Some params
                    \<and> badgeComponent imp p h l = Some (BadgePopover params b)))
           \<and> (\<not> truthyReact (badgeTooltip p) \<and> \<not> isSet (badgePopoverParams p) \<longrightarrow>
                badgeComponent imp p h l = Some (BadgeBare b))))
   \<and> (\<forall>params b. badgeComponent imp p h l = Some (BadgePopover params b) \<longrightarrow>
        truthyString (badge p) \<and> \<not> truthyReact (badgeTooltip p)
        \<and> badgePopoverParams p = Some params)
   \<and> (\<forall>q. renderTask imp p h l = FullPill q \<longrightarrow> pill_badge q = badgeComponent imp p h l)"
  by (auto simp add: badgeComponent_def badgeLabel_def renderTask_def pill_def truthy_defs
      split: option.splits if_splits)

theorem badgeComponent_precedence_witness:
  "truthyString (badge fullProps) \<and> truthyReact (badgeTooltip fullProps)
   \<and> isSet (badgePopoverParams fullProps)
   \<and> badgeComponent exampleImports fullProps allMeasured fullLayout
       = Some (BadgeTooltip (NodeText ''three of four'') exampleBadge)
   \<and> badgeComponent exampleImports popoverBadgeProps allMeasured fullLayout
       = Some (BadgePopover ''popover'' exampleBadge)
   \<and> badgeComponent exampleImports bareBadgeProps allMeasured fullLayout
       = Some (BadgeBare exampleBadge)
   \<and> \<not> truthyString (badge (propsFor exampleNode))
   \<and> badgeComponent exampleImports (propsFor exampleNode) allMeasured fullLayout = None"
proof -
  have f: "truthyString (badge fullProps)" "truthyReact (badgeTooltip fullProps)"
    "isSet (badgePopoverParams fullProps)" "\<not> truthyString (badge (propsFor exampleNode))"
    by (simp_all add: truthy_defs example_defs)
  have c: "badgeComponent exampleImports fullProps allMeasured fullLayout
       = Some (BadgeTooltip (NodeText ''three of four'') exampleBadge)"
    "badgeComponent exampleImports popoverBadgeProps allMeasured fullLayout
       = Some (BadgePopover ''popover'' exampleBadge)"
    "badgeComponent exampleImports bareBadgeProps allMeasured fullLayout
       = Some (BadgeBare exampleBadge)"
    by (simp_all add: badgeComponent_def badgeLabel_def truthy_defs example_defs
        popoverBadgeProps_def bareBadgeProps_def exampleBadge_def fullLayout_def)
  from badgeComponent_precedence [of "propsFor exampleNode" exampleImports allMeasured fullLayout]
    badgeComponent_precedence [of fullProps exampleImports allMeasured fullLayout]
  show ?thesis using f c by simp
qed

subsection \<open>TaskNode: properties\<close>

text \<open>
  C8. TaskNode throws the error 'TaskNode must be used only on Node elements' if and only
  if isNode fails on its element, and it throws nothing else; for a node it returns the
  TaskNodeInner element with the defaults filled in. Rendering that element never throws
  this error either.
\<close>

theorem TaskNode_throws_iff_not_node:
  "(TaskNode imp p = Inl (Error ''TaskNode must be used only on Node elements'')
      \<longleftrightarrow> \<not> isNode imp (element p))
   \<and> ((\<exists>e. TaskNode imp p = Inl e) \<longleftrightarrow> \<not> isNode imp (element p))
   \<and> (isNode imp (element p) \<longrightarrow>
        TaskNode imp p = Inr (TaskNodeInnerElement (withDefaults imp p))
        \<and> element (withDefaults imp p) = element p)
   \<and> (renderTaskNode imp p h = Inl (Error ''TaskNode must be used only on Node elements'')
        \<longleftrightarrow> \<not> isNode imp (element p))"
proof -
  have inner: "outcome (TaskNodeInner imp q h) \<noteq> Inl (Error m)" for q m
    by (auto simp add: TaskNodeInner_def layout_def leadIconSpace_def Let_def
        split: sum.splits option.splits if_splits)
  show ?thesis
    using inner by (auto simp add: TaskNode_def renderTaskNode_def withDefaults_def)
qed

theorem TaskNode_throws_iff_not_node_witness:
  "\<not> isNode exampleImports (element (propsFor graphElement))
   \<and> TaskNode exampleImports (propsFor graphElement)
       = Inl (Error ''TaskNode must be used only on Node elements'')
   \<and> isNode exampleImports (element fullProps)
   \<and> TaskNode exampleImports fullProps
       = Inr (TaskNodeInnerElement (withDefaults exampleImports fullProps))
   \<and> paddingX (withDefaults exampleImports fullProps) = Some 8
   \<and> truncateLength (withDefaults exampleImports fullProps) = Some 14"
proof -
  have n: "\<not> isNode exampleImports (element (propsFor graphElement))"
    "isNode exampleImports (element fullProps)"
    by (simp_all add: example_defs graphElement_def)
  have d: "paddingX (withDefaults exampleImports fullProps) = Some 8"
    "truncateLength (withDefaults exampleImports fullProps) = Some 14"
    by (simp_all add: withDefaults_def fullProps_def propsFor_def dflt_def)
  from TaskNode_throws_iff_not_node [of exampleImports "propsFor graphElement" firstRender]
    TaskNode_throws_iff_not_node [of exampleImports fullProps firstRender]
  show ?thesis using n d by simp
qed

end
